theory Spec2Isabelle
  imports Complex_Main "HOL-Library.AList" "HOL-Library.Multiset"
begin

section \<open>Performance statistics (src/pages/Index.tsx, fetchModelStats)\<close>

text \<open>
  The statistics are computed over exact reals: every statement below about means is a
  statement of exact arithmetic, not of IEEE-754 rounding.

  A row of the table \<open>model_performance\<close> as \<open>select('*')\<close> returns it. The two
  score columns are nullable (\<open>DECIMAL(3,2)\<close> without \<open>NOT NULL\<close>), the latency is
  \<open>INTEGER NOT NULL\<close>.
\<close>

record performance_record =
  r_id :: string
  r_user_id :: string
  r_model_name :: string
  r_language :: string
  r_latency_ms :: int
  r_quality_score :: "real option"
  r_expressivity_score :: "real option"
  r_created_at :: nat

text \<open>\<open>interface ModelStats\<close>.\<close>

record ModelStats =
  model_name :: string
  avg_latency :: real
  avg_quality :: real
  avg_expressivity :: real
  usage_count :: nat

text \<open>
  \<open>x || 0\<close> on a nullable number: \<open>null\<close> and \<open>0\<close> are the falsy values, and both
  give \<open>0\<close>.
\<close>

definition or_zero :: "real option \<Rightarrow> real" where
  "or_zero x = (case x of None \<Rightarrow> 0 | Some v \<Rightarrow> v)"

text \<open>The \<open>else\<close> branch of the loop body: the entry stored for a model seen first.\<close>

definition first_entry :: "performance_record \<Rightarrow> ModelStats" where
  "first_entry record =
     \<lparr> model_name = r_model_name record,
       avg_latency = real_of_int (r_latency_ms record),
       avg_quality = or_zero (r_quality_score record),
       avg_expressivity = or_zero (r_expressivity_score record),
       usage_count = 1 \<rparr>"

text \<open>
  The \<open>if (existing)\<close> branch: the three means are recomputed from the old
  \<open>usage_count\<close>, then the count is incremented.
\<close>

definition update_existing :: "ModelStats \<Rightarrow> performance_record \<Rightarrow> ModelStats" where
  "update_existing existing record =
     existing
     \<lparr> avg_latency :=
         (avg_latency existing * real (usage_count existing) + real_of_int (r_latency_ms record))
           / real (usage_count existing + 1),
       avg_quality :=
         (avg_quality existing * real (usage_count existing) + or_zero (r_quality_score record))
           / real (usage_count existing + 1),
       avg_expressivity :=
         (avg_expressivity existing * real (usage_count existing)
            + or_zero (r_expressivity_score record))
           / real (usage_count existing + 1),
       usage_count := usage_count existing + 1 \<rparr>"

text \<open>
  \<open>statsMap\<close> is a JavaScript \<open>Map\<close>: its values are enumerated in the order in which
  their keys were first set. It is an association list here; \<open>AList.update\<close> replaces
  the value of a key in place and appends a new key at the end, which is what mutating
  \<open>existing\<close> and \<open>statsMap.set\<close> do.
\<close>

definition forEach_body ::
  "(string \<times> ModelStats) list \<Rightarrow> performance_record \<Rightarrow> (string \<times> ModelStats) list" where
  "forEach_body statsMap record =
     (case map_of statsMap (r_model_name record) of
        Some existing \<Rightarrow>
          AList.update (r_model_name record) (update_existing existing record) statsMap
      | None \<Rightarrow>
          AList.update (r_model_name record) (first_entry record) statsMap)"

definition aggregate :: "performance_record list \<Rightarrow> (string \<times> ModelStats) list" where
  "aggregate data = foldl forEach_body [] data"

subsection \<open>The state of the page and the effects of its handlers\<close>

text \<open>
  A row of the table \<open>messages\<close>, and the React state of the page \<open>Index\<close> with the
  signed-in user's id (\<open>user?.id\<close>; \<open>None\<close> when there is no user).
\<close>

record message =
  msg_id :: string
  conversation_id :: string
  content :: string
  transcript :: "string option"
  audio_url :: "string option"
  is_user :: bool
  latency_ms :: "int option"
  created_at :: nat

record app_state =
  user_id :: "string option"
  selectedModel :: string
  selectedLanguage :: string
  currentConversationId :: "string option"
  messages :: "message list"
  modelStats :: "ModelStats list"

text \<open>
  What the persistence client answers to a query that returns rows: \<open>{data, error}\<close>
  with an error, or with \<open>data\<close> that may be \<open>null\<close>.
\<close>

datatype 'a rows_result = RowsError string | RowsData "'a list option"

text \<open>Effects of the page's handlers other than state updates.\<close>

record conversation_payload =
  cp_user_id :: "string option"
  cp_title :: string
  cp_model_used :: string
  cp_language :: string

record message_payload =
  mp_conversation_id :: string
  mp_content :: string
  mp_transcript :: "string option"
  mp_audio_url :: "string option"
  mp_is_user :: bool
  mp_latency_ms :: int

record performance_payload =
  pp_user_id :: "string option"
  pp_model_name :: string
  pp_language :: string
  pp_latency_ms :: int
  pp_quality_score :: real
  pp_expressivity_score :: real

datatype effect =
    ConsoleError string string
  | Toast string string string
  | InsertConversation conversation_payload
  | InsertMessage message_payload
  | InsertPerformance performance_payload
  | DeleteConversation string

subsection \<open>Fetching and aggregating\<close>

text \<open>
  \<open>fetchModelStats\<close>: on an error the \<open>catch\<close> logs it and the state is unchanged;
  \<open>data?.forEach\<close> skips a \<open>null\<close> result, so the statistics become empty.
\<close>

definition fetchModelStats ::
  "performance_record rows_result \<Rightarrow> app_state \<Rightarrow> app_state \<times> effect list" where
  "fetchModelStats result s =
     (case result of
        RowsError e \<Rightarrow> (s, [ConsoleError ''Error fetching model stats:'' e])
      | RowsData None \<Rightarrow> (s\<lparr>modelStats := []\<rparr>, [])
      | RowsData (Some data) \<Rightarrow> (s\<lparr>modelStats := map snd (aggregate data)\<rparr>, []))"


text \<open>
  The direct computation the incremental means are compared with: the records of one
  model, their sum divided by their count.
\<close>

definition incremental_mean :: "real \<Rightarrow> nat \<Rightarrow> real \<Rightarrow> real" where
  "incremental_mean oldMean k v = (oldMean * (real k - 1) + v) / real k"

definition direct_mean :: "real list \<Rightarrow> real" where
  "direct_mean xs = sum_list xs / real (length xs)"

definition model_group :: "string \<Rightarrow> performance_record list \<Rightarrow> performance_record list" where
  "model_group m data = filter (\<lambda>record. r_model_name record = m) data"

definition direct_stats :: "performance_record list \<Rightarrow> string \<Rightarrow> ModelStats option" where
  "direct_stats data m =
     (let g = model_group m data in
      if g = [] then None
      else Some
        \<lparr> model_name = m,
          avg_latency = direct_mean (map (\<lambda>record. real_of_int (r_latency_ms record)) g),
          avg_quality = direct_mean (map (\<lambda>record. or_zero (r_quality_score record)) g),
          avg_expressivity =
            direct_mean (map (\<lambda>record. or_zero (r_expressivity_score record)) g),
          usage_count = length g \<rparr>)"

section \<open>Conversation state (src/pages/Index.tsx)\<close>

text \<open>
  \<open>!x\<close> on a \<open>string | null\<close>: \<open>null\<close> and the empty string are falsy. \<open>truthy x\<close> is
  the string when it counts as present.
\<close>

definition truthy :: "string option \<Rightarrow> string option" where
  "truthy x = (case x of None \<Rightarrow> None | Some v \<Rightarrow> if v = [] then None else Some v)"

text \<open>
  \<open>charAt(0).toUpperCase() + slice(1)\<close>, on ASCII letters (the model names offered by
  the page are ASCII).
\<close>

definition toUpperCase_char :: "char \<Rightarrow> char" where
  "toUpperCase_char c =
     (let n = (of_char c :: nat) in if 97 \<le> n \<and> n \<le> 122 then char_of (n - 32) else c)"

definition capitalize :: "string \<Rightarrow> string" where
  "capitalize s = (case s of [] \<Rightarrow> [] | c # cs \<Rightarrow> toUpperCase_char c # cs)"

text \<open>
  The persistence client reports a failed statement in the \<open>error\<close> field of its
  answer; it does not throw. An \<open>insert(...).select().single()\<close> answers with an error
  (\<open>Inl\<close>) or with the one inserted row (\<open>Inr\<close>). For \<open>conversations\<close> only \<open>data.id\<close>
  is read.
\<close>

definition createNewConversation ::
  "string + string \<Rightarrow> app_state \<Rightarrow> (string option \<times> app_state) \<times> effect list" where
  "createNewConversation result s =
     (let request = InsertConversation
            \<lparr> cp_user_id = user_id s,
              cp_title = capitalize (selectedModel s) @ '' Conversation'',
              cp_model_used = selectedModel s,
              cp_language = selectedLanguage s \<rparr>
      in case result of
           Inl e \<Rightarrow>
             ((None, s),
              [request, ConsoleError ''Error creating conversation:'' e,
               Toast ''Error'' ''Failed to create new conversation'' ''destructive''])
         | Inr new_id \<Rightarrow>
             ((Some new_id, s\<lparr>currentConversationId := Some new_id, messages := []\<rparr>),
              [request]))"

definition fetchMessages ::
  "message rows_result \<Rightarrow> string \<Rightarrow> app_state \<Rightarrow> app_state \<times> effect list" where
  "fetchMessages result conversationId s =
     (case result of
        RowsError e \<Rightarrow> (s, [ConsoleError ''Error fetching messages:'' e])
      | RowsData None \<Rightarrow> (s\<lparr>messages := []\<rparr>, [])
      | RowsData (Some data) \<Rightarrow> (s\<lparr>messages := data\<rparr>, []))"

text \<open>
  The row a message insert returns: the columns of the payload, and the two columns the
  payload leaves to their defaults, \<open>id\<close> (\<open>gen_random_uuid()\<close>) and \<open>created_at\<close>
  (\<open>now()\<close>), which the database chooses. \<open>created_at\<close> is an instant, counted in the
  database clock's ticks.
\<close>

definition inserted_row :: "message_payload \<Rightarrow> string \<times> nat \<Rightarrow> message" where
  "inserted_row p generated =
     \<lparr> msg_id = fst generated,
       conversation_id = mp_conversation_id p,
       content = mp_content p,
       transcript = mp_transcript p,
       audio_url = mp_audio_url p,
       is_user = mp_is_user p,
       latency_ms = Some (mp_latency_ms p),
       created_at = snd generated \<rparr>"

text \<open>
  What the outside world answers during one call of \<open>handleTranscriptionReceived\<close>: the
  results of the four inserts and of the statistics query, and the two values drawn from
  \<open>Math.random()\<close> (binary64 numbers in \<open>[0,1)\<close>).
\<close>

record exchange_env =
  conversation_result :: "string + string"
  user_message_result :: "string + string \<times> nat"
  ai_message_result :: "string + string \<times> nat"
  performance_result :: "string option"
  stats_result :: "performance_record rows_result"
  random_quality :: real
  random_expressivity :: real

definition user_message_payload :: "string \<Rightarrow> string \<Rightarrow> int \<Rightarrow> message_payload" where
  "user_message_payload conversationId transcript_text latency =
     \<lparr> mp_conversation_id = conversationId,
       mp_content = transcript_text,
       mp_transcript = Some transcript_text,
       mp_audio_url = None,
       mp_is_user = True,
       mp_latency_ms = latency \<rparr>"

definition ai_message_payload :: "app_state \<Rightarrow> string \<Rightarrow> string \<Rightarrow> int \<Rightarrow> message_payload" where
  "ai_message_payload s conversationId audioUrl latency =
     \<lparr> mp_conversation_id = conversationId,
       mp_content = ''AI response using '' @ selectedModel s,
       mp_transcript = None,
       mp_audio_url = Some audioUrl,
       mp_is_user = False,
       mp_latency_ms = latency \<rparr>"

text \<open>
  \<open>Math.random() * 2 + 3\<close> is computed in binary64. For a binary64 number \<open>r\<close> in
  \<open>[0,1)\<close> the product \<open>r * 2\<close> is exact (the exponent changes), and the sum is the
  binary64 number nearest to \<open>r * 2 + 3\<close>, a tie going to the even significand. The
  exact sum lies in \<open>[3,5)\<close>: below \<open>4\<close> the binary64 numbers are \<open>2^-51\<close> apart, from
  \<open>4\<close> on they are \<open>2^-50\<close> apart. \<open>binary64_nearest\<close> is this rounding for the
  numbers from \<open>2\<close> to \<open>8\<close>.
\<close>

definition round_half_even :: "real \<Rightarrow> int" where
  "round_half_even q =
     (let f = \<lfloor>q\<rfloor> in
      if q - of_int f < 1 / 2 then f
      else if 1 / 2 < q - of_int f then f + 1
      else if even f then f else f + 1)"

definition binary64_spacing :: "real \<Rightarrow> real" where
  "binary64_spacing x = (if x < 4 then 1 / 2 ^ 51 else 1 / 2 ^ 50)"

definition binary64_nearest :: "real \<Rightarrow> real" where
  "binary64_nearest x = binary64_spacing x * of_int (round_half_even (x / binary64_spacing x))"

definition mock_score :: "real \<Rightarrow> real" where
  "mock_score r = binary64_nearest (r * 2 + 3)"

definition performance_data :: "exchange_env \<Rightarrow> app_state \<Rightarrow> int \<Rightarrow> performance_payload" where
  "performance_data env s latency =
     \<lparr> pp_user_id = user_id s,
       pp_model_name = selectedModel s,
       pp_language = selectedLanguage s,
       pp_latency_ms = latency,
       pp_quality_score = mock_score (random_quality env),
       pp_expressivity_score = mock_score (random_expressivity env) \<rparr>"

text \<open>
  The \<open>try\<close> block of \<open>handleTranscriptionReceived\<close>. Each \<open>throw\<close> ends in the
  \<open>catch\<close>, which only logs. The answer to the \<open>model_performance\<close> insert is awaited and
  not looked at: \<open>performance_result env\<close> does not occur on the right-hand side.
  \<open>fetchModelStats()\<close> is started without \<open>await\<close>; its state update is applied here
  right after the messages are appended.
\<close>

definition handleTranscriptionReceived_try ::
  "exchange_env \<Rightarrow> string \<Rightarrow> string \<Rightarrow> string \<Rightarrow> int \<Rightarrow> app_state
     \<Rightarrow> app_state \<times> effect list" where
  "handleTranscriptionReceived_try env conversationId transcript_text audioUrl latency s =
     (let userInsert = InsertMessage (user_message_payload conversationId transcript_text latency);
          aiInsert = InsertMessage (ai_message_payload s conversationId audioUrl latency)
      in case user_message_result env of
           Inl userError \<Rightarrow>
             (s, [userInsert, ConsoleError ''Error saving messages:'' userError])
         | Inr userGenerated \<Rightarrow>
             (case ai_message_result env of
                Inl aiError \<Rightarrow>
                  (s, [userInsert, aiInsert, ConsoleError ''Error saving messages:'' aiError])
              | Inr aiGenerated \<Rightarrow>
                  (let userMessage =
                         inserted_row (user_message_payload conversationId transcript_text latency)
                           userGenerated;
                       aiMessage =
                         inserted_row (ai_message_payload s conversationId audioUrl latency)
                           aiGenerated;
                       refreshed =
                         fetchModelStats (stats_result env)
                           (s\<lparr>messages := messages s @ [userMessage, aiMessage]\<rparr>)
                   in (fst refreshed,
                       [userInsert, aiInsert, InsertPerformance (performance_data env s latency)]
                         @ snd refreshed))))"

definition handleTranscriptionReceived ::
  "exchange_env \<Rightarrow> string \<Rightarrow> string \<Rightarrow> int \<Rightarrow> app_state \<Rightarrow> app_state \<times> effect list" where
  "handleTranscriptionReceived env transcript_text audioUrl latency s =
     (case truthy (currentConversationId s) of
        Some conversationId \<Rightarrow>
          handleTranscriptionReceived_try env conversationId transcript_text audioUrl latency s
      | None \<Rightarrow>
          (let created = createNewConversation (conversation_result env) s
           in case truthy (fst (fst created)) of
                None \<Rightarrow> (snd (fst created), snd created)
              | Some conversationId \<Rightarrow>
                  (let saved = handleTranscriptionReceived_try env conversationId transcript_text
                                 audioUrl latency (snd (fst created))
                   in (fst saved, snd created @ snd saved))))"

definition handleSelectConversation ::
  "message rows_result \<Rightarrow> string \<Rightarrow> app_state \<Rightarrow> app_state \<times> effect list" where
  "handleSelectConversation result conversationId s =
     fetchMessages result conversationId (s\<lparr>currentConversationId := Some conversationId\<rparr>)"

definition handleNewConversation :: "app_state \<Rightarrow> app_state" where
  "handleNewConversation s = s\<lparr>currentConversationId := None, messages := []\<rparr>"

text \<open>
  The CHECK constraints of the two score columns of \<open>model_performance\<close>
  (supabase/migrations): \<open>quality_score >= 0 AND quality_score <= 5\<close>, and the same for
  \<open>expressivity_score\<close>.
\<close>

definition score_check :: "real \<Rightarrow> bool" where
  "score_check x = (x \<ge> 0 \<and> x \<le> 5)"

section \<open>Conversation history (src/components/ConversationHistory.tsx)\<close>

record conversation =
  conv_id :: string
  conv_title :: string
  conv_model_used :: string
  conv_language :: string
  conv_created_at :: nat
  message_count :: "nat option"

record history_state =
  conversations :: "conversation list"
  loading :: bool

text \<open>
  The page passes \<open>selectedConversationId={currentConversationId || undefined}\<close> and
  \<open>onNewConversation={handleNewConversation}\<close>.
\<close>

definition selectedConversationId :: "app_state \<Rightarrow> string option" where
  "selectedConversationId s = truthy (currentConversationId s)"

text \<open>
  \<open>deleteConversation\<close>; \<open>error\<close> is the \<open>error\<close> field of the answer to the delete
  statement.
\<close>

definition deleteConversation ::
  "string option \<Rightarrow> string \<Rightarrow> app_state \<times> history_state
     \<Rightarrow> (app_state \<times> history_state) \<times> effect list" where
  "deleteConversation error conversationId page =
     (case error of
        Some e \<Rightarrow>
          (page, [DeleteConversation conversationId,
                  ConsoleError ''Error deleting conversation:'' e])
      | None \<Rightarrow>
          ((if selectedConversationId (fst page) = Some conversationId
            then handleNewConversation (fst page) else fst page,
            (snd page)\<lparr>conversations :=
               filter (\<lambda>conv. conv_id conv \<noteq> conversationId) (conversations (snd page))\<rparr>),
           [DeleteConversation conversationId]))"

section \<open>The inference endpoint (supabase edge function \<open>speech-to-speech\<close>)\<close>

text \<open>
  Strings are byte strings; a character outside ASCII in a source literal is written as
  its UTF-8 bytes.
\<close>

definition utf8 :: "nat list \<Rightarrow> string" where
  "utf8 bytes = map char_of bytes"

text \<open>
  The decimal form of an integer, as a template literal prints \<open>Date.now()\<close> and a
  difference of two such readings (integers far below \<open>10^21\<close>, where JavaScript
  switches to exponent notation).
\<close>

fun digits :: "nat \<Rightarrow> string" where
  "digits n = (if n < 10 then [char_of (48 + n)] else digits (n div 10) @ [char_of (48 + n mod 10)])"

definition number_toString :: "int \<Rightarrow> string" where
  "number_toString i = (if i < 0 then CHR ''-'' # digits (nat (- i)) else digits (nat i))"

text \<open>\<open>btoa(String.fromCharCode(...bytes))\<close>: base64 of the bytes of a \<open>Uint8Array\<close>.\<close>

definition base64_alphabet :: string where
  "base64_alphabet = ''ABCDEFGHIJKLMNOPQRSTUVWXYZabcdefghijklmnopqrstuvwxyz0123456789+/''"

definition sextet :: "nat \<Rightarrow> char" where
  "sextet n = base64_alphabet ! (n mod 64)"

fun btoa :: "nat list \<Rightarrow> string" where
  "btoa [] = []"
| "btoa [a] = [sextet (a div 4), sextet ((a mod 4) * 16), CHR ''='', CHR ''='']"
| "btoa [a, b] =
     [sextet (a div 4), sextet ((a mod 4) * 16 + b div 16), sextet ((b mod 16) * 4), CHR ''='']"
| "btoa (a # b # c # rest) =
     [sextet (a div 4), sextet ((a mod 4) * 16 + b div 16),
      sextet ((b mod 16) * 4 + c div 64), sextet (c mod 64)] @ btoa rest"

text \<open>
  A value read from an object literal by a computed key, \<open>table[key]\<close>. The key is
  looked up among the literal's own properties and then on \<open>Object.prototype\<close>, whose
  members are functions, hence truthy and not strings. The Deno runtime removes
  \<open>__proto__\<close> from \<open>Object.prototype\<close>, so it is not among them.
\<close>

datatype jsval = JUndefined | JString string | JInherited string

definition object_prototype_properties :: "string list" where
  "object_prototype_properties =
     [''constructor'', ''hasOwnProperty'', ''isPrototypeOf'', ''propertyIsEnumerable'',
      ''toLocaleString'', ''toString'', ''valueOf'', ''__defineGetter__'',
      ''__defineSetter__'', ''__lookupGetter__'', ''__lookupSetter__'']"

definition get_property :: "(string \<times> string) list \<Rightarrow> string \<Rightarrow> jsval" where
  "get_property obj key =
     (case map_of obj key of
        Some v \<Rightarrow> JString v
      | None \<Rightarrow> if key \<in> set object_prototype_properties then JInherited key else JUndefined)"

fun js_truthy :: "jsval \<Rightarrow> bool" where
  "js_truthy JUndefined = False"
| "js_truthy (JString s) = (s \<noteq> [])"
| "js_truthy (JInherited k) = True"

definition js_or :: "jsval \<Rightarrow> jsval \<Rightarrow> jsval" where
  "js_or a b = (if js_truthy a then a else b)"

definition moshi_greetings :: "(string \<times> string) list" where
  "moshi_greetings =
     [
      (''en'',
         ''Hello! I heard you speaking. This is Moshi responding with full-duplex conversation capability.''),
      (''ta'',
         utf8 [224, 174, 181, 224, 174, 163, 224, 174, 149, 224, 175, 141, 224, 174, 149,
           224, 174, 174, 224, 175, 141] @ ''! '' @ utf8 [224, 174, 168, 224, 175, 128,
           224, 174, 153, 224, 175, 141, 224, 174, 149, 224, 174, 179, 224, 175, 141]
           @ '' '' @ utf8 [224, 174, 170, 224, 175, 135, 224, 174, 154, 224, 175, 129, 224,
           174, 181, 224, 174, 164, 224, 175, 136] @ '' '' @ utf8 [224, 174, 168, 224, 174,
           190, 224, 174, 169, 224, 175, 141] @ '' '' @ utf8 [224, 174, 149, 224, 175, 135,
           224, 174, 159, 224, 175, 141, 224, 174, 159, 224, 175, 135, 224, 174, 169, 224,
           175, 141] @ ''. '' @ utf8 [224, 174, 135, 224, 174, 164, 224, 175, 129] @ '' ''
           @ utf8 [224, 174, 174, 224, 175, 139, 224, 174, 183, 224, 174, 191] @ '' ''
           @ utf8 [224, 174, 174, 224, 175, 129, 224, 174, 180, 224, 175, 129] @ ''-''
           @ utf8 [224, 174, 159, 224, 175, 129, 224, 174, 170, 224, 175, 141, 224, 174,
           179, 224, 175, 134, 224, 174, 149, 224, 175, 141, 224, 174, 184, 224, 175, 141]
           @ '' '' @ utf8 [224, 174, 137, 224, 174, 176, 224, 175, 136, 224, 174, 175, 224,
           174, 190, 224, 174, 159, 224, 174, 178, 224, 175, 141] @ '' '' @ utf8 [224, 174,
           164, 224, 174, 191, 224, 174, 177, 224, 174, 169, 224, 175, 129, 224, 174, 159,
           224, 174, 169, 224, 175, 141] @ '' '' @ utf8 [224, 174, 170, 224, 174, 164, 224,
           174, 191, 224, 174, 178, 224, 174, 179, 224, 174, 191, 224, 174, 149, 224, 175,
           141, 224, 174, 149, 224, 174, 191, 224, 174, 177, 224, 174, 164, 224, 175, 129]
           @ ''.''),
      (''es'',
         utf8 [194, 161] @ ''Hola! Te escuch'' @ utf8 [195, 169]
           @ '' hablar. Este es Moshi respondiendo con capacidad de conversaci''
           @ utf8 [195, 179] @ ''n full-duplex.''),
      (''fr'',
         ''Bonjour! Je vous ai entendu parler. Voici Moshi r'' @ utf8 [195, 169]
           @ ''pondant avec une capacit'' @ utf8 [195, 169]
           @ '' de conversation full-duplex.''),
      (''de'',
         ''Hallo! Ich habe Sie sprechen h'' @ utf8 [195, 182]
           @ ''ren. Das ist Moshi, der mit Full-Duplex-Gespr'' @ utf8 [195, 164] @ ''chsf''
           @ utf8 [195, 164] @ ''higkeit antwortet.'') ]"

definition ultravox_responses :: "(string \<times> string) list" where
  "ultravox_responses =
     [
      (''en'',
         ''Ultravox here! As a speech-extended language model, I can understand and respond to your speech with enhanced linguistic capabilities.''),
      (''ta'',
         utf8 [224, 174, 133, 224, 174, 178, 224, 175, 141, 224, 174, 159, 224, 175, 141,
           224, 174, 176, 224, 174, 190, 224, 174, 181, 224, 175, 139, 224, 174, 149, 224,
           175, 141, 224, 174, 184, 224, 175, 141] @ '' '' @ utf8 [224, 174, 135, 224, 174,
           153, 224, 175, 141, 224, 174, 149, 224, 175, 135] @ ''! '' @ utf8 [224, 174,
           146, 224, 174, 176, 224, 175, 129] @ '' '' @ utf8 [224, 174, 170, 224, 175, 135,
           224, 174, 154, 224, 175, 141, 224, 174, 154, 224, 175, 129] @ ''-'' @ utf8 [224,
           174, 181, 224, 174, 191, 224, 174, 176, 224, 174, 191, 224, 174, 181, 224, 174,
           190, 224, 174, 149, 224, 175, 141, 224, 174, 149, 224, 174, 170, 224, 175, 141,
           224, 174, 170, 224, 174, 159, 224, 175, 141, 224, 174, 159] @ '' '' @ utf8 [224,
           174, 174, 224, 175, 138, 224, 174, 180, 224, 174, 191] @ '' '' @ utf8 [224, 174,
           174, 224, 174, 190, 224, 174, 164, 224, 174, 191, 224, 174, 176, 224, 174, 191,
           224, 174, 175, 224, 174, 190, 224, 174, 149] @ '', '' @ utf8 [224, 174, 174,
           224, 175, 135, 224, 174, 174, 224, 175, 141, 224, 174, 170, 224, 174, 159, 224,
           175, 141, 224, 174, 159] @ '' '' @ utf8 [224, 174, 174, 224, 175, 138, 224, 174,
           180, 224, 174, 191, 224, 174, 175, 224, 174, 191, 224, 174, 175, 224, 174, 178,
           224, 175, 141] @ '' '' @ utf8 [224, 174, 164, 224, 174, 191, 224, 174, 177, 224,
           174, 169, 224, 175, 141, 224, 174, 149, 224, 174, 179, 224, 175, 129, 224, 174,
           159, 224, 174, 169, 224, 175, 141] @ '' '' @ utf8 [224, 174, 137, 224, 174, 153,
           224, 175, 141, 224, 174, 149, 224, 174, 179, 224, 175, 141] @ '' '' @ utf8 [224,
           174, 170, 224, 175, 135, 224, 174, 154, 224, 175, 141, 224, 174, 154, 224, 175,
           136] @ '' '' @ utf8 [224, 174, 170, 224, 175, 129, 224, 174, 176, 224, 174, 191,
           224, 174, 168, 224, 175, 141, 224, 174, 164, 224, 175, 129, 224, 174, 149, 224,
           175, 138, 224, 174, 163, 224, 175, 141, 224, 174, 159, 224, 175, 129] @ '' ''
           @ utf8 [224, 174, 170, 224, 174, 164, 224, 174, 191, 224, 174, 178, 224, 174,
           179, 224, 174, 191, 224, 174, 149, 224, 175, 141, 224, 174, 149] @ '' ''
           @ utf8 [224, 174, 174, 224, 175, 129, 224, 174, 159, 224, 174, 191, 224, 174,
           175, 224, 175, 129, 224, 174, 174, 224, 175, 141] @ ''.''),
      (''es'',
         utf8 [194, 161] @ ''Ultravox aqu'' @ utf8 [195, 173]
           @ ''! Como modelo de lenguaje extendido por voz, puedo entender y responder a tu habla con capacidades ling''
           @ utf8 [195, 188, 195, 173] @ ''sticas mejoradas.''),
      (''fr'',
         ''Ultravox ici! En tant que mod'' @ utf8 [195, 168] @ ''le de langage ''
           @ utf8 [195, 169] @ ''tendu par la parole, je peux comprendre et r''
           @ utf8 [195, 169] @ ''pondre '' @ utf8 [195, 160]
           @ '' votre parole avec des capacit'' @ utf8 [195, 169] @ ''s linguistiques am''
           @ utf8 [195, 169] @ ''lior'' @ utf8 [195, 169] @ ''es.''),
      (''de'',
         ''Ultravox hier! Als spracherweiterte Sprachmodell kann ich Ihre Sprache verstehen und mit erweiterten sprachlichen F''
           @ utf8 [195, 164] @ ''higkeiten antworten.'') ]"

definition spirit_lm_responses :: "(string \<times> string) list" where
  "spirit_lm_responses =
     [
      (''en'',
         ''Spirit LM speaking! I specialize in expressive speech-text fusion, bringing emotion and nuance to our conversation.''),
      (''ta'',
         utf8 [224, 174, 184, 224, 175, 141, 224, 174, 170, 224, 174, 191, 224, 174, 176,
           224, 174, 191, 224, 174, 159, 224, 175, 141] @ '' '' @ utf8 [224, 174, 142, 224,
           174, 178, 224, 175, 141, 224, 174, 142, 224, 174, 174, 224, 175, 141] @ '' ''
           @ utf8 [224, 174, 170, 224, 175, 135, 224, 174, 154, 224, 175, 129, 224, 174,
           149, 224, 174, 191, 224, 174, 177, 224, 174, 164, 224, 175, 129] @ ''! ''
           @ utf8 [224, 174, 181, 224, 175, 134, 224, 174, 179, 224, 174, 191, 224, 174,
           170, 224, 175, 141, 224, 174, 170, 224, 174, 190, 224, 174, 159, 224, 175, 129]
           @ '' '' @ utf8 [224, 174, 168, 224, 174, 191, 224, 174, 177, 224, 175, 136, 224,
           174, 168, 224, 175, 141, 224, 174, 164] @ '' '' @ utf8 [224, 174, 170, 224, 175,
           135, 224, 174, 154, 224, 175, 141, 224, 174, 154, 224, 175, 129] @ ''-''
           @ utf8 [224, 174, 137, 224, 174, 176, 224, 175, 136] @ '' '' @ utf8 [224, 174,
           135, 224, 174, 163, 224, 175, 136, 224, 174, 170, 224, 175, 141, 224, 174, 170,
           224, 174, 191, 224, 174, 178, 224, 175, 141] @ '' '' @ utf8 [224, 174, 168, 224,
           174, 190, 224, 174, 169, 224, 175, 141] @ '' '' @ utf8 [224, 174, 168, 224, 174,
           191, 224, 174, 170, 224, 175, 129, 224, 174, 163, 224, 174, 164, 224, 175, 141,
           224, 174, 164, 224, 175, 129, 224, 174, 181, 224, 174, 174, 224, 175, 141]
           @ '' '' @ utf8 [224, 174, 170, 224, 175, 134, 224, 174, 177, 224, 175, 141, 224,
           174, 177, 224, 175, 129, 224, 174, 179, 224, 175, 141, 224, 174, 179, 224, 175,
           135, 224, 174, 169, 224, 175, 141] @ '', '' @ utf8 [224, 174, 137, 224, 174,
           163, 224, 174, 176, 224, 175, 141, 224, 174, 154, 224, 175, 141, 224, 174, 154,
           224, 174, 191] @ '' '' @ utf8 [224, 174, 174, 224, 174, 177, 224, 175, 141, 224,
           174, 177, 224, 175, 129, 224, 174, 174, 224, 175, 141] @ '' '' @ utf8 [224, 174,
           168, 224, 175, 129, 224, 174, 163, 224, 175, 129, 224, 174, 149, 224, 175, 141,
           224, 174, 149, 224, 174, 164, 224, 175, 141, 224, 174, 164, 224, 175, 136]
           @ '' '' @ utf8 [224, 174, 137, 224, 174, 153, 224, 175, 141, 224, 174, 149, 224,
           174, 179, 224, 175, 141] @ '' '' @ utf8 [224, 174, 137, 224, 174, 176, 224, 175,
           136, 224, 174, 175, 224, 174, 190, 224, 174, 159, 224, 174, 178, 224, 175, 129,
           224, 174, 149, 224, 175, 141, 224, 174, 149, 224, 175, 129] @ '' '' @ utf8 [224,
           174, 149, 224, 175, 138, 224, 174, 163, 224, 175, 141, 224, 174, 159, 224, 175,
           129] @ '' '' @ utf8 [224, 174, 181, 224, 174, 176, 224, 175, 129, 224, 174, 149,
           224, 174, 191, 224, 174, 177, 224, 175, 135, 224, 174, 169, 224, 175, 141]
           @ ''.''),
      (''es'',
         utf8 [194, 161] @ ''Spirit LM hablando! Me especializo en la fusi'' @ utf8 [195,
           179] @ ''n expresiva de habla y texto, aportando emoci'' @ utf8 [195, 179]
           @ ''n y matices a nuestra conversaci'' @ utf8 [195, 179] @ ''n.''),
      (''fr'',
         ''Spirit LM parle! Je me sp'' @ utf8 [195, 169]
           @ ''cialise dans la fusion expressive parole-texte, apportant '' @ utf8 [195,
           169] @ ''motion et nuance '' @ utf8 [195, 160] @ '' notre conversation.''),
      (''de'',
         ''Spirit LM spricht! Ich spezialisiere mich auf ausdrucksstarke Sprach-Text-Fusion und bringe Emotion und Nuancen in unser Gespr''
           @ utf8 [195, 164] @ ''ch.'') ]"


text \<open>
  \<open>generateMockAudioUrl\<close>; \<open>timestamp\<close> is the value \<open>Date.now()\<close> returns inside it.
\<close>

definition generateMockAudioUrl :: "int \<Rightarrow> string \<Rightarrow> string \<Rightarrow> string" where
  "generateMockAudioUrl timestamp model language =
     ''https://mock-audio-storage.com/'' @ model @ ''/'' @ language @ ''/''
       @ number_toString timestamp @ ''.wav''"

record processed =
  p_transcript :: jsval
  p_audioUrl :: string

text \<open>
  The three backends. Each returns its result and the line it writes to the console.
  The simulated delay only lets time pass; the clock readings are inputs of the model.
\<close>

definition processMoshiModel :: "int \<Rightarrow> string \<Rightarrow> string \<Rightarrow> processed \<times> string list" where
  "processMoshiModel timestamp audioBase64 language =
     (\<lparr> p_transcript =
          js_or (get_property moshi_greetings language) (get_property moshi_greetings ''en''),
        p_audioUrl = generateMockAudioUrl timestamp ''moshi'' language \<rparr>,
      [''Processing with Moshi (Full-duplex) model''])"

definition processUltravoxModel :: "int \<Rightarrow> string \<Rightarrow> string \<Rightarrow> processed \<times> string list" where
  "processUltravoxModel timestamp audioBase64 language =
     (\<lparr> p_transcript =
          js_or (get_property ultravox_responses language)
            (get_property ultravox_responses ''en''),
        p_audioUrl = generateMockAudioUrl timestamp ''ultravox'' language \<rparr>,
      [''Processing with Ultravox (Speech LLM) model''])"

definition processSpiritLMModel :: "int \<Rightarrow> string \<Rightarrow> string \<Rightarrow> processed \<times> string list" where
  "processSpiritLMModel timestamp audioBase64 language =
     (\<lparr> p_transcript =
          js_or (get_property spirit_lm_responses language)
            (get_property spirit_lm_responses ''en''),
        p_audioUrl = generateMockAudioUrl timestamp ''spirit_lm'' language \<rparr>,
      [''Processing with Spirit LM (Expressive) model''])"

text \<open>
  The request: its method and what \<open>req.formData()\<close> gives, either the message of the
  error it throws (\<open>Inl\<close>) or the three fields, each \<open>None\<close> when \<open>formData.get\<close> returns
  \<open>null\<close>. The \<open>audio\<close> entry is a file with its bytes or, when the client sent the
  field as text, a string, whatever the cast \<open>as File\<close> says; \<open>model\<close> and \<open>language\<close>
  are text fields.
\<close>

datatype form_value = TextField string | FileField "nat list"

text \<open>\<open>!audioBlob\<close>: \<open>null\<close> and the empty string are falsy, every file is truthy.\<close>

definition truthy_value :: "form_value option \<Rightarrow> form_value option" where
  "truthy_value x =
     (case x of
        None \<Rightarrow> None
      | Some (TextField v) \<Rightarrow> if v = [] then None else Some (TextField v)
      | Some (FileField bytes) \<Rightarrow> Some (FileField bytes))"

text \<open>
  The number of arguments a call may take is bounded by the engine (by its stack);
  \<open>String.fromCharCode(...bytes)\<close> passes one argument for each byte of the audio.
\<close>

record engine_limits =
  max_arguments :: nat

record form_data =
  fd_audio :: "form_value option"
  fd_model :: "string option"
  fd_language :: "string option"

record request =
  req_method :: string
  req_formData :: "string + form_data"

text \<open>The three readings of \<open>Date.now()\<close> during one request.\<close>

record clock_readings =
  startTime :: int
  urlTime :: int
  endTime :: int

record success_json =
  sj_transcript :: jsval
  sj_audioUrl :: string
  sj_latency :: int
  sj_model :: string
  sj_language :: string
  sj_success :: bool

record error_json =
  ej_error :: string
  ej_success :: bool

datatype response_body = NullBody | SuccessBody success_json | ErrorBody error_json

record response =
  status :: nat
  headers :: "(string \<times> string) list"
  body :: response_body

definition corsHeaders :: "(string \<times> string) list" where
  "corsHeaders =
     [(''Access-Control-Allow-Origin'', ''*''),
      (''Access-Control-Allow-Headers'', ''authorization, x-client-info, apikey, content-type'')]"

definition missing_parameters :: string where
  "missing_parameters = ''Missing required parameters: audio, model, or language''"

text \<open>
  The \<open>switch\<close> on the model name and what follows it. \<open>Inl\<close> is the message of the
  \<open>Error\<close> thrown.
\<close>

definition serve_switch ::
  "clock_readings \<Rightarrow> string \<Rightarrow> string \<Rightarrow> string \<Rightarrow> (string + success_json) \<times> string list" where
  "serve_switch clock audioBase64 model language =
     (let respond = (\<lambda>result.
            (Inr \<lparr> sj_transcript = p_transcript (fst result),
                   sj_audioUrl = p_audioUrl (fst result),
                   sj_latency = endTime clock - startTime clock,
                   sj_model = model,
                   sj_language = language,
                   sj_success = True \<rparr>,
             snd result
               @ [''Processing completed in '' @ number_toString (endTime clock - startTime clock)
                    @ ''ms'']))
      in if model = ''moshi'' then respond (processMoshiModel (urlTime clock) audioBase64 language)
         else if model = ''ultravox''
           then respond (processUltravoxModel (urlTime clock) audioBase64 language)
         else if model = ''spirit_lm''
           then respond (processSpiritLMModel (urlTime clock) audioBase64 language)
         else (Inl (''Unsupported model: '' @ model), []))"

text \<open>
  The conversion of the audio to base64, between the parameter check and the \<open>switch\<close>.
  \<open>audioBlob.arrayBuffer()\<close> throws a \<open>TypeError\<close> when the entry is a string, which has
  no such method; the spread call throws a \<open>RangeError\<close> when the audio has more bytes
  than a call may take arguments. \<open>Inl\<close> is the message of the error (as V8 words it).
\<close>

definition encode_audio :: "engine_limits \<Rightarrow> form_value \<Rightarrow> string + string" where
  "encode_audio engine audioBlob =
     (case audioBlob of
        TextField v \<Rightarrow> Inl ''audioBlob.arrayBuffer is not a function''
      | FileField bytes \<Rightarrow>
          if max_arguments engine < length bytes
          then Inl ''Maximum call stack size exceeded''
          else Inr (btoa bytes))"

text \<open>The \<open>try\<close> block of the handler.\<close>

definition serve_try ::
  "engine_limits \<Rightarrow> clock_readings \<Rightarrow> request \<Rightarrow> (string + success_json) \<times> string list" where
  "serve_try engine clock req =
     (let started = [''Speech-to-Speech processing started''];
          missing = (Inl missing_parameters, started)
      in case req_formData req of
           Inl message \<Rightarrow> (Inl message, started)
         | Inr formData \<Rightarrow>
             (case truthy_value (fd_audio formData) of
                None \<Rightarrow> missing
              | Some audioBlob \<Rightarrow>
                  (case truthy (fd_model formData) of
                     None \<Rightarrow> missing
                   | Some model \<Rightarrow>
                       (case truthy (fd_language formData) of
                          None \<Rightarrow> missing
                        | Some language \<Rightarrow>
                            (let processing =
                                   started
                                     @ [''Processing with model: '' @ model @ '', language: ''
                                          @ language]
                             in case encode_audio engine audioBlob of
                                  Inl message \<Rightarrow> (Inl message, processing)
                                | Inr audioBase64 \<Rightarrow>
                                    (let switched = serve_switch clock audioBase64 model language
                                     in (fst switched, processing @ snd switched)))))))"

text \<open>
  The handler: the response and the lines written to the console. An error caught is
  logged and answered with status 500 and \<open>error.message || 'Internal server error'\<close>.
\<close>

definition serve ::
  "engine_limits \<Rightarrow> clock_readings \<Rightarrow> request \<Rightarrow> response \<times> string list" where
  "serve engine clock req =
     (if req_method req = ''OPTIONS''
      then (\<lparr> status = 200, headers = corsHeaders, body = NullBody \<rparr>, [])
      else case fst (serve_try engine clock req) of
             Inr json \<Rightarrow>
               (\<lparr> status = 200,
                  headers = corsHeaders @ [(''Content-Type'', ''application/json'')],
                  body = SuccessBody json \<rparr>,
                snd (serve_try engine clock req))
           | Inl message \<Rightarrow>
               (\<lparr> status = 500,
                  headers = corsHeaders @ [(''Content-Type'', ''application/json'')],
                  body = ErrorBody
                    \<lparr> ej_error = (if message = [] then ''Internal server error'' else message),
                      ej_success = False \<rparr> \<rparr>,
                snd (serve_try engine clock req)
                  @ [''Error in speech-to-speech processing: '' @ message]))"

text \<open>The console lines by which each backend announces that it runs.\<close>

definition backend_lines :: "string list" where
  "backend_lines =
     [''Processing with Moshi (Full-duplex) model'',
      ''Processing with Ultravox (Speech LLM) model'',
      ''Processing with Spirit LM (Expressive) model'']"

definition backend_invoked :: "string list \<Rightarrow> bool" where
  "backend_invoked console = list_ex (\<lambda>line. line \<in> set backend_lines) console"

section \<open>Notions used to state the properties\<close>

text \<open>
  The conversation an exchange is saved under (the first lines of
  \<open>handleTranscriptionReceived\<close>): the active one, or the one created on demand;
  \<open>None\<close> when there is neither. \<open>state_in_use\<close> is the page's state at that point and
  \<open>prior_messages\<close> the message list of that conversation before the exchange, which is
  empty for a conversation just created.
\<close>

definition conversation_in_use :: "exchange_env \<Rightarrow> app_state \<Rightarrow> string option" where
  "conversation_in_use env s =
     (case truthy (currentConversationId s) of
        Some conversationId \<Rightarrow> Some conversationId
      | None \<Rightarrow>
          (case conversation_result env of
             Inl e \<Rightarrow> None
           | Inr new_id \<Rightarrow> truthy (Some new_id)))"

definition state_in_use :: "exchange_env \<Rightarrow> app_state \<Rightarrow> app_state" where
  "state_in_use env s =
     (case truthy (currentConversationId s) of
        Some conversationId \<Rightarrow> s
      | None \<Rightarrow> snd (fst (createNewConversation (conversation_result env) s)))"

definition prior_messages :: "app_state \<Rightarrow> message list" where
  "prior_messages s =
     (case truthy (currentConversationId s) of
        Some conversationId \<Rightarrow> messages s
      | None \<Rightarrow> [])"

text \<open>The effects by which a handler reports an error: a console error or a toast.\<close>

fun is_error_report :: "effect \<Rightarrow> bool" where
  "is_error_report (ConsoleError label e) = True"
| "is_error_report (Toast title description variant) = True"
| "is_error_report (InsertConversation p) = False"
| "is_error_report (InsertMessage p) = False"
| "is_error_report (InsertPerformance p) = False"
| "is_error_report (DeleteConversation c) = False"


definition supported_languages :: "string list" where
  "supported_languages = [''en'', ''ta'', ''es'', ''fr'', ''de'']"

text \<open>Concrete inputs on which the properties are instantiated.\<close>

definition sample_record :: "string \<Rightarrow> int \<Rightarrow> real \<Rightarrow> real \<Rightarrow> performance_record" where
  "sample_record m l q x =
     \<lparr> r_id = ''p'', r_user_id = ''owner'', r_model_name = m, r_language = ''en'',
       r_latency_ms = l, r_quality_score = Some q, r_expressivity_score = Some x,
       r_created_at = 0 \<rparr>"

definition sample_message :: message where
  "sample_message =
     \<lparr> msg_id = ''m0'', conversation_id = ''c1'', content = ''earlier'', transcript = None,
       audio_url = None, is_user = False, latency_ms = None, created_at = 5 \<rparr>"

definition sample_state :: app_state where
  "sample_state =
     \<lparr> user_id = Some ''owner'', selectedModel = ''moshi'', selectedLanguage = ''en'',
       currentConversationId = Some ''c1'', messages = [sample_message], modelStats = [] \<rparr>"

definition sample_env :: exchange_env where
  "sample_env =
     \<lparr> conversation_result = Inr ''c2'',
       user_message_result = Inr (''m1'', 10),
       ai_message_result = Inr (''m2'', 11),
       performance_result = Some ''new row violates check constraint'',
       stats_result = RowsData (Some []),
       random_quality = 1 / 2,
       random_expressivity = 1 / 4 \<rparr>"

definition sample_clock :: clock_readings where
  "sample_clock = \<lparr> startTime = 1000, urlTime = 1400, endTime = 1401 \<rparr>"

definition sample_engine :: engine_limits where
  "sample_engine = \<lparr> max_arguments = 125000 \<rparr>"

definition sample_request ::
  "form_value option \<Rightarrow> string option \<Rightarrow> string option \<Rightarrow> request" where
  "sample_request a m l =
     \<lparr> req_method = ''POST'',
       req_formData = Inr \<lparr> fd_audio = a, fd_model = m, fd_language = l \<rparr> \<rparr>"

section \<open>Properties of the statistics\<close>

text \<open>
  C1. For the two records \<open>{modelA, 100 ms, 4, 4}\<close> and \<open>{modelA, 200 ms, 2, 2}\<close>
  (whatever their other columns hold), \<open>fetchModelStats\<close> stores exactly one entry, for
  \<open>modelA\<close>, with \<open>avg_latency = 150\<close>, \<open>avg_quality = 3\<close>, \<open>avg_expressivity = 3\<close> and
  \<open>usage_count = 2\<close>, and reports no error.
\<close>

theorem fetchModelStats_two_records:
  "fetchModelStats
     (RowsData (Some
        [r1\<lparr>r_model_name := ''modelA'', r_latency_ms := 100,
            r_quality_score := Some 4, r_expressivity_score := Some 4\<rparr>,
         r2\<lparr>r_model_name := ''modelA'', r_latency_ms := 200,
            r_quality_score := Some 2, r_expressivity_score := Some 2\<rparr>])) s
   = (s\<lparr>modelStats :=
          [\<lparr> model_name = ''modelA'', avg_latency = 150, avg_quality = 3,
             avg_expressivity = 3, usage_count = 2 \<rparr>]\<rparr>, [])"
  by (simp add: fetchModelStats_def aggregate_def forEach_body_def first_entry_def
      update_existing_def or_zero_def)

subsection \<open>The incremental means are the direct means\<close>

lemma aggregate_snoc: "aggregate (data @ [r]) = forEach_body (aggregate data) r"
  by (simp add: aggregate_def)

lemma map_of_forEach_body:
  "map_of (forEach_body statsMap r) m =
     (if m = r_model_name r
      then Some (case map_of statsMap m of
                   Some existing \<Rightarrow> update_existing existing r
                 | None \<Rightarrow> first_entry r)
      else map_of statsMap m)"
  by (simp add: forEach_body_def AList.update_conv' split: option.splits)

text \<open>
  Induction from the right end of the list: the loop has processed \<open>data\<close> and meets
  \<open>r\<close>. Either \<open>r\<close> belongs to another model, or it opens its group, or it extends a
  group of \<open>n > 0\<close> records whose mean is \<open>sum / n\<close>; then \<open>(sum / n * n + v) / (n + 1)\<close>
  is the mean of the extended group.
\<close>

lemma map_of_aggregate: "map_of (aggregate data) m = direct_stats data m"
proof (induction data rule: rev_induct)
  case Nil
  show ?case by (simp add: aggregate_def direct_stats_def model_group_def)
next
  case (snoc r data)
  show ?case
  proof (cases "r_model_name r = m")
    case False
    then show ?thesis using snoc
      by (simp add: aggregate_snoc map_of_forEach_body direct_stats_def model_group_def)
  next
    case True
    show ?thesis
    proof (cases "model_group m data = []")
      case True
      with \<open>r_model_name r = m\<close> snoc show ?thesis
        by (simp add: aggregate_snoc map_of_forEach_body direct_stats_def model_group_def
            first_entry_def direct_mean_def)
    next
      case False
      with \<open>r_model_name r = m\<close> snoc show ?thesis
        by (simp add: aggregate_snoc map_of_forEach_body direct_stats_def model_group_def
            update_existing_def direct_mean_def Let_def)
    qed
  qed
qed

lemma distinct_aggregate: "distinct (map fst (aggregate data))"
  by (induction data rule: rev_induct)
     (simp_all add: aggregate_snoc aggregate_def forEach_body_def AList.distinct_update
        split: option.splits)

lemma direct_stats_model_name: "direct_stats data m = Some e \<Longrightarrow> model_name e = m"
  by (auto simp add: direct_stats_def Let_def split: if_splits)

lemma aggregate_key:
  assumes "(k, v) \<in> set (aggregate data)"
  shows "model_name v = k"
proof -
  have "map_of (aggregate data) k = Some v"
    using assms distinct_aggregate by (simp add: map_of_eq_Some_iff)
  then show ?thesis
    by (simp add: map_of_aggregate direct_stats_model_name)
qed

lemma find_values:
  "distinct (map fst al) \<Longrightarrow> (\<And>k v. (k, v) \<in> set al \<Longrightarrow> f v = k)
     \<Longrightarrow> find (\<lambda>v. f v = m) (map snd al) = map_of al m"
  by (induction al) auto

lemma value_names:
  "(\<And>k v. (k, v) \<in> set al \<Longrightarrow> f v = k) \<Longrightarrow> map f (map snd al) = map fst al"
  by (induction al) auto

lemma distinct_stats: "distinct (map model_name (map snd (aggregate data)))"
proof -
  have "map model_name (map snd (aggregate data)) = map fst (aggregate data)"
    by (rule value_names) (rule aggregate_key)
  then show ?thesis
    by (simp only: distinct_aggregate)
qed

lemma find_stats:
  "find (\<lambda>e. model_name e = m) (map snd (aggregate data)) = direct_stats data m"
  using find_values [OF distinct_aggregate, of data model_name m] aggregate_key
  by (simp add: map_of_aggregate)

lemma set_stats:
  "set (map snd (aggregate data)) = {e. direct_stats data (model_name e) = Some e}"
proof -
  have "set (map snd (aggregate data)) = ran (map_of (aggregate data))"
    using distinct_aggregate by (simp add: ran_distinct)
  also have "\<dots> = {e. direct_stats data (model_name e) = Some e}"
    by (auto simp add: ran_def map_of_aggregate direct_stats_model_name)
  finally show ?thesis .
qed

text \<open>The direct statistics depend on the records as a multiset only.\<close>

lemma direct_stats_mset:
  assumes "mset data' = mset data"
  shows "direct_stats data' m = direct_stats data m"
proof -
  have g: "mset (model_group m data') = mset (model_group m data)"
    using assms by (simp add: model_group_def)
  have len: "length (model_group m data') = length (model_group m data)"
    using g by (metis size_mset)
  have emp: "(model_group m data' = []) = (model_group m data = [])"
    using len by (metis length_0_conv)
  have s: "sum_list (map f (model_group m data')) = sum_list (map f (model_group m data))"
    for f :: "performance_record \<Rightarrow> real"
    using g by (metis mset_map sum_mset_sum_list)
  show ?thesis
    by (simp add: direct_stats_def Let_def direct_mean_def s len emp)
qed

lemma stats_of_data:
  "modelStats (fst (fetchModelStats (RowsData (Some data)) s)) = map snd (aggregate data)"
  by (simp add: fetchModelStats_def)

lemma update_existing_incremental:
  "update_existing existing r =
     existing
     \<lparr> avg_latency := incremental_mean (avg_latency existing) (usage_count existing + 1)
                        (real_of_int (r_latency_ms r)),
       avg_quality := incremental_mean (avg_quality existing) (usage_count existing + 1)
                        (or_zero (r_quality_score r)),
       avg_expressivity := incremental_mean (avg_expressivity existing)
                        (usage_count existing + 1) (or_zero (r_expressivity_score r)),
       usage_count := usage_count existing + 1 \<rparr>"
  by (simp add: update_existing_def incremental_mean_def)

text \<open>
  C2. The loop updates an entry that counts \<open>k - 1\<close> records by the incremental-mean
  step \<open>newMean = (oldMean * (k - 1) + value) / k\<close> (last conjunct). Over exact
  arithmetic, for every list \<open>data\<close> of records and every permutation \<open>data'\<close> of it,
  the statistics \<open>fetchModelStats\<close> computes from \<open>data'\<close> hold one entry per model name,
  the entry of each model \<open>m\<close> is the direct sum/count statistics of the records of \<open>m\<close>
  in \<open>data\<close> (no entry when there is none), and the entries are the same as those
  computed from \<open>data\<close>. The order in which the entries are listed is the order in which
  the model names first occur, so the results are compared as sets.
\<close>

theorem fetchModelStats_order_independent:
  assumes "mset data' = mset data"
  shows "distinct (map model_name (modelStats (fst (fetchModelStats (RowsData (Some data')) s))))
       \<and> find (\<lambda>e. model_name e = m)
             (modelStats (fst (fetchModelStats (RowsData (Some data')) s)))
           = direct_stats data m
       \<and> set (modelStats (fst (fetchModelStats (RowsData (Some data')) s)))
           = set (modelStats (fst (fetchModelStats (RowsData (Some data)) s)))
       \<and> update_existing existing r =
           existing
           \<lparr> avg_latency := incremental_mean (avg_latency existing) (usage_count existing + 1)
                              (real_of_int (r_latency_ms r)),
             avg_quality := incremental_mean (avg_quality existing) (usage_count existing + 1)
                              (or_zero (r_quality_score r)),
             avg_expressivity := incremental_mean (avg_expressivity existing)
                              (usage_count existing + 1) (or_zero (r_expressivity_score r)),
             usage_count := usage_count existing + 1 \<rparr>"
proof (intro conjI)
  show "distinct (map model_name (modelStats (fst (fetchModelStats (RowsData (Some data')) s))))"
    by (simp only: stats_of_data distinct_stats)
  show "find (\<lambda>e. model_name e = m)
          (modelStats (fst (fetchModelStats (RowsData (Some data')) s)))
        = direct_stats data m"
    using direct_stats_mset [OF assms] by (simp add: stats_of_data find_stats)
  show "set (modelStats (fst (fetchModelStats (RowsData (Some data')) s)))
        = set (modelStats (fst (fetchModelStats (RowsData (Some data)) s)))"
    using direct_stats_mset [OF assms] by (simp only: stats_of_data set_stats)
  show "update_existing existing r =
           existing
           \<lparr> avg_latency := incremental_mean (avg_latency existing) (usage_count existing + 1)
                              (real_of_int (r_latency_ms r)),
             avg_quality := incremental_mean (avg_quality existing) (usage_count existing + 1)
                              (or_zero (r_quality_score r)),
             avg_expressivity := incremental_mean (avg_expressivity existing)
                              (usage_count existing + 1) (or_zero (r_expressivity_score r)),
             usage_count := usage_count existing + 1 \<rparr>"
    by (rule update_existing_incremental)
qed

text \<open>
  Three records of two models, and the same records in another order: the entry of
  \<open>modelA\<close> is the mean of its two records either way.
\<close>

theorem fetchModelStats_order_independent_witness:
  "mset [sample_record ''modelA'' 200 2 2, sample_record ''modelB'' 300 5 1,
         sample_record ''modelA'' 100 4 4]
     = mset [sample_record ''modelA'' 100 4 4, sample_record ''modelA'' 200 2 2,
             sample_record ''modelB'' 300 5 1]
   \<and> find (\<lambda>e. model_name e = ''modelA'')
         (modelStats (fst (fetchModelStats
            (RowsData (Some [sample_record ''modelA'' 200 2 2, sample_record ''modelB'' 300 5 1,
                             sample_record ''modelA'' 100 4 4])) sample_state)))
       = Some \<lparr> model_name = ''modelA'', avg_latency = 150, avg_quality = 3,
                avg_expressivity = 3, usage_count = 2 \<rparr>"
proof -
  have h: "mset [sample_record ''modelA'' 200 2 2, sample_record ''modelB'' 300 5 1,
         sample_record ''modelA'' 100 4 4]
     = mset [sample_record ''modelA'' 100 4 4, sample_record ''modelA'' 200 2 2,
             sample_record ''modelB'' 300 5 1]"
    by simp
  have d: "direct_stats [sample_record ''modelA'' 100 4 4, sample_record ''modelA'' 200 2 2,
             sample_record ''modelB'' 300 5 1] ''modelA''
       = Some \<lparr> model_name = ''modelA'', avg_latency = 150, avg_quality = 3,
                avg_expressivity = 3, usage_count = 2 \<rparr>"
    by (simp add: direct_stats_def model_group_def direct_mean_def sample_record_def or_zero_def)
  show ?thesis
    using h d fetchModelStats_order_independent [OF h, where s = sample_state and m = "''modelA''"]
    by simp
qed


section \<open>Properties of an exchange\<close>

lemma try_success:
  assumes "user_message_result env = Inr u" "ai_message_result env = Inr a"
  shows "handleTranscriptionReceived_try env cid t url l s =
     (fst (fetchModelStats (stats_result env)
            (s\<lparr>messages := messages s @ [inserted_row (user_message_payload cid t l) u,
                                          inserted_row (ai_message_payload s cid url l) a]\<rparr>)),
      [InsertMessage (user_message_payload cid t l),
       InsertMessage (ai_message_payload s cid url l),
       InsertPerformance (performance_data env s l)]
       @ snd (fetchModelStats (stats_result env)
            (s\<lparr>messages := messages s @ [inserted_row (user_message_payload cid t l) u,
                                          inserted_row (ai_message_payload s cid url l) a]\<rparr>)))"
  using assms by (simp add: handleTranscriptionReceived_try_def Let_def)

lemma fetchModelStats_messages: "messages (fst (fetchModelStats r s)) = messages s"
  by (simp add: fetchModelStats_def split: rows_result.splits option.splits)

lemma fetchModelStats_effects:
  "snd (fetchModelStats r s) =
     (case r of
        RowsError e \<Rightarrow> [ConsoleError ''Error fetching model stats:'' e]
      | RowsData d \<Rightarrow> [])"
  by (simp add: fetchModelStats_def split: rows_result.splits option.splits)

lemma handle_in_use:
  assumes "conversation_in_use env s = Some cid"
  shows "handleTranscriptionReceived env t url l s =
     (fst (handleTranscriptionReceived_try env cid t url l (state_in_use env s)),
      (case truthy (currentConversationId s) of
         Some c \<Rightarrow> []
       | None \<Rightarrow> snd (createNewConversation (conversation_result env) s))
        @ snd (handleTranscriptionReceived_try env cid t url l (state_in_use env s)))"
  using assms
  by (auto simp add: handleTranscriptionReceived_def conversation_in_use_def state_in_use_def
      createNewConversation_def Let_def split: option.splits sum.splits)

lemma messages_in_use:
  "conversation_in_use env s = Some cid \<Longrightarrow> messages (state_in_use env s) = prior_messages s"
  by (auto simp add: conversation_in_use_def state_in_use_def prior_messages_def
      createNewConversation_def Let_def split: option.splits sum.splits)

lemma ai_message_payload_in_use:
  "ai_message_payload (state_in_use env s) cid url l = ai_message_payload s cid url l"
  by (simp add: ai_message_payload_def state_in_use_def createNewConversation_def Let_def
      split: option.splits sum.splits)

lemma performance_data_in_use:
  "performance_data env (state_in_use env s) l = performance_data env s l"
  by (simp add: performance_data_def state_in_use_def createNewConversation_def Let_def
      split: option.splits sum.splits)

lemma creation_effects_quiet:
  "conversation_in_use env s = Some cid \<Longrightarrow>
     filter is_error_report
       (case truthy (currentConversationId s) of
          Some c \<Rightarrow> []
        | None \<Rightarrow> snd (createNewConversation (conversation_result env) s)) = []"
  by (auto simp add: conversation_in_use_def createNewConversation_def Let_def
      split: option.splits sum.splits)

lemma try_performance_result_unused:
  "handleTranscriptionReceived_try (env\<lparr>performance_result := r\<rparr>) cid t url l s
     = handleTranscriptionReceived_try env cid t url l s"
  by (simp add: handleTranscriptionReceived_try_def performance_data_def Let_def
      cong: sum.case_cong)

lemma performance_result_unused:
  "handleTranscriptionReceived (env\<lparr>performance_result := r\<rparr>) t url l s
     = handleTranscriptionReceived env t url l s"
  by (simp add: handleTranscriptionReceived_def try_performance_result_unused Let_def
      cong: option.case_cong)

lemma performance_inserts:
  "InsertPerformance p \<in> set (snd (handleTranscriptionReceived env t url l s))
     \<Longrightarrow> p = performance_data env s l"
  by (auto simp add: handleTranscriptionReceived_def handleTranscriptionReceived_try_def
      createNewConversation_def fetchModelStats_effects performance_data_def Let_def
      split: option.splits sum.splits rows_result.splits if_splits)

lemma sample_in_use: "conversation_in_use sample_env sample_state = Some ''c1''"
  by (simp add: conversation_in_use_def sample_state_def truthy_def)

lemma sample_user_result: "user_message_result sample_env = Inr (''m1'', 10)"
  by (simp add: sample_env_def)

lemma sample_ai_result: "ai_message_result sample_env = Inr (''m2'', 11)"
  by (simp add: sample_env_def)

lemma sample_prior: "prior_messages sample_state = [sample_message]"
  by (simp add: prior_messages_def sample_state_def truthy_def)

lemma fetchModelStats_conversation:
  "currentConversationId (fst (fetchModelStats r s)) = currentConversationId s"
  by (simp add: fetchModelStats_def split: rows_result.splits option.splits)

lemma conversation_of_state_in_use:
  "conversation_in_use env s = Some cid \<Longrightarrow> currentConversationId (state_in_use env s) = Some cid"
  by (auto simp add: conversation_in_use_def state_in_use_def createNewConversation_def truthy_def
      Let_def split: option.splits sum.splits if_splits)

text \<open>
  C4 as stated does not hold for the timestamps. The handler appends the two rows as the
  inserts return them and reads no \<open>created_at\<close>: with one entry of timestamp \<open>5\<close> in
  the list and a database that answers the two successful inserts with the timestamps
  \<open>3\<close> and \<open>1\<close>, the list afterwards carries \<open>5, 3, 1\<close>, so both new entries are
  earlier than the prior one.
\<close>

theorem exchange_timestamps_counterexample:
  "conversation_in_use
     (sample_env\<lparr>user_message_result := Inr (''m1'', 3), ai_message_result := Inr (''m2'', 1)\<rparr>)
     sample_state = Some ''c1''
   \<and> user_message_result
       (sample_env\<lparr>user_message_result := Inr (''m1'', 3), ai_message_result := Inr (''m2'', 1)\<rparr>)
       = Inr (''m1'', 3)
   \<and> ai_message_result
       (sample_env\<lparr>user_message_result := Inr (''m1'', 3), ai_message_result := Inr (''m2'', 1)\<rparr>)
       = Inr (''m2'', 1)
   \<and> map created_at (messages sample_state) = [5]
   \<and> map created_at
        (messages (fst (handleTranscriptionReceived
           (sample_env\<lparr>user_message_result := Inr (''m1'', 3),
                        ai_message_result := Inr (''m2'', 1)\<rparr>)
           ''hello'' ''https://audio'' 420 sample_state))) = [5, 3, 1]"
  by (simp add: handleTranscriptionReceived_def handleTranscriptionReceived_try_def
      fetchModelStats_def conversation_in_use_def inserted_row_def user_message_payload_def
      ai_message_payload_def sample_env_def sample_state_def sample_message_def truthy_def
      Let_def)

text \<open>
  C4, amended. For every successful exchange (the conversation is available, both
  message inserts succeed), the in-memory message list of the conversation grows by
  exactly the two rows the inserts returned, the first with \<open>is_user = true\<close> and the
  second with \<open>is_user = false\<close>; both are tied to the conversation, which is the
  active one afterwards, and each carries the identifier and the creation timestamp the
  database returned for it, unchanged. The handler does not compare these timestamps
  with those of the prior entries.
\<close>

theorem exchange_appends_pair:
  assumes "conversation_in_use env s = Some cid"
    and "user_message_result env = Inr (uid, tu)"
    and "ai_message_result env = Inr (aid, ta)"
  shows "\<exists>u a. messages (fst (handleTranscriptionReceived env t url l s))
                 = prior_messages s @ [u, a]
           \<and> length (messages (fst (handleTranscriptionReceived env t url l s)))
               = length (prior_messages s) + 2
           \<and> is_user u \<and> \<not> is_user a
           \<and> conversation_id u = cid \<and> conversation_id a = cid
           \<and> currentConversationId (fst (handleTranscriptionReceived env t url l s)) = Some cid
           \<and> msg_id u = uid \<and> msg_id a = aid
           \<and> created_at u = tu \<and> created_at a = ta"
proof -
  let ?u = "inserted_row (user_message_payload cid t l) (uid, tu)"
  let ?a = "inserted_row (ai_message_payload (state_in_use env s) cid url l) (aid, ta)"
  have m: "messages (fst (handleTranscriptionReceived env t url l s))
      = prior_messages s @ [?u, ?a]"
    using assms
    by (simp add: handle_in_use try_success fetchModelStats_messages messages_in_use)
  have c: "currentConversationId (fst (handleTranscriptionReceived env t url l s)) = Some cid"
    using assms
    by (simp add: handle_in_use try_success fetchModelStats_conversation
        conversation_of_state_in_use)
  have p: "is_user ?u \<and> \<not> is_user ?a \<and> conversation_id ?u = cid \<and> conversation_id ?a = cid
      \<and> msg_id ?u = uid \<and> msg_id ?a = aid \<and> created_at ?u = tu \<and> created_at ?a = ta"
    by (simp add: inserted_row_def user_message_payload_def ai_message_payload_def)
  show ?thesis
    using m c p by (intro exI [of _ ?u] exI [of _ ?a]) simp
qed

theorem exchange_appends_pair_witness:
  "conversation_in_use sample_env sample_state = Some ''c1''
   \<and> user_message_result sample_env = Inr (''m1'', 10)
   \<and> ai_message_result sample_env = Inr (''m2'', 11)
   \<and> prior_messages sample_state = [sample_message]
   \<and> length (messages (fst (handleTranscriptionReceived sample_env ''hello'' ''https://audio''
                 420 sample_state))) = 3
   \<and> currentConversationId (fst (handleTranscriptionReceived sample_env ''hello''
         ''https://audio'' 420 sample_state)) = Some ''c1''
   \<and> (\<exists>u a. messages (fst (handleTranscriptionReceived sample_env ''hello'' ''https://audio''
                 420 sample_state)) = [sample_message, u, a]
          \<and> is_user u \<and> \<not> is_user a
          \<and> conversation_id u = ''c1'' \<and> conversation_id a = ''c1''
          \<and> created_at u = 10 \<and> created_at a = 11)"
proof -
  obtain u a where
    ms: "messages (fst (handleTranscriptionReceived sample_env ''hello'' ''https://audio''
           420 sample_state)) = prior_messages sample_state @ [u, a]"
    and flags: "is_user u" "\<not> is_user a"
    and tied: "conversation_id u = ''c1''" "conversation_id a = ''c1''"
    and active: "currentConversationId (fst (handleTranscriptionReceived sample_env ''hello''
         ''https://audio'' 420 sample_state)) = Some ''c1''"
    and stamps: "created_at u = 10" "created_at a = 11"
    using exchange_appends_pair [OF sample_in_use sample_user_result sample_ai_result,
        where t = "''hello''" and url = "''https://audio''" and l = 420]
    by blast
  have len: "length (messages (fst (handleTranscriptionReceived sample_env ''hello''
      ''https://audio'' 420 sample_state))) = 3"
    by (simp add: ms sample_prior)
  have ex: "\<exists>u a. messages (fst (handleTranscriptionReceived sample_env ''hello''
                 ''https://audio'' 420 sample_state)) = [sample_message, u, a]
          \<and> is_user u \<and> \<not> is_user a
          \<and> conversation_id u = ''c1'' \<and> conversation_id a = ''c1''
          \<and> created_at u = 10 \<and> created_at a = 11"
    using ms flags tied stamps by (intro exI [of _ u] exI [of _ a]) (simp add: sample_prior)
  show ?thesis
    using sample_in_use sample_user_result sample_ai_result sample_prior len active ex
    by blast
qed

text \<open>
  C9. The result of the \<open>model_performance\<close> insert is discarded. For every exchange in
  which the conversation is available and both message inserts succeed but the
  performance insert fails, the handler behaves exactly as if that insert had succeeded:
  the two messages are appended to the in-memory list, the final state is that of the
  statistics refresh applied after the append (the refresh is triggered), and the only
  error the run can report is the one of the refresh's own query; none comes from the
  failed insert.
\<close>

theorem performance_insert_result_discarded:
  assumes "conversation_in_use env s = Some cid"
    and "user_message_result env = Inr u"
    and "ai_message_result env = Inr a"
    and "performance_result env = Some e"
  shows "handleTranscriptionReceived env t url l s
           = handleTranscriptionReceived (env\<lparr>performance_result := None\<rparr>) t url l s
       \<and> fst (handleTranscriptionReceived env t url l s)
           = fst (fetchModelStats (stats_result env)
               ((state_in_use env s)\<lparr>messages := prior_messages s
                  @ [inserted_row (user_message_payload cid t l) u,
                     inserted_row (ai_message_payload s cid url l) a]\<rparr>))
       \<and> messages (fst (handleTranscriptionReceived env t url l s))
           = prior_messages s
               @ [inserted_row (user_message_payload cid t l) u,
                  inserted_row (ai_message_payload s cid url l) a]
       \<and> filter is_error_report (snd (handleTranscriptionReceived env t url l s))
           = (case stats_result env of
                RowsError x \<Rightarrow> [ConsoleError ''Error fetching model stats:'' x]
              | RowsData d \<Rightarrow> [])"
proof -
  have st: "fst (handleTranscriptionReceived env t url l s)
           = fst (fetchModelStats (stats_result env)
               ((state_in_use env s)\<lparr>messages := prior_messages s
                  @ [inserted_row (user_message_payload cid t l) u,
                     inserted_row (ai_message_payload s cid url l) a]\<rparr>))"
    using assms(1-3)
    by (simp add: handle_in_use try_success messages_in_use ai_message_payload_in_use)
  have ef: "filter is_error_report (snd (handleTranscriptionReceived env t url l s))
           = (case stats_result env of
                RowsError x \<Rightarrow> [ConsoleError ''Error fetching model stats:'' x]
              | RowsData d \<Rightarrow> [])"
    using assms(1-3) creation_effects_quiet [OF assms(1)]
    by (simp add: handle_in_use try_success fetchModelStats_effects split: rows_result.splits)
  show ?thesis
    using st ef by (simp add: performance_result_unused fetchModelStats_messages)
qed

theorem performance_insert_result_discarded_witness:
  "conversation_in_use sample_env sample_state = Some ''c1''
   \<and> user_message_result sample_env = Inr (''m1'', 10)
   \<and> ai_message_result sample_env = Inr (''m2'', 11)
   \<and> performance_result sample_env = Some ''new row violates check constraint''
   \<and> messages (fst (handleTranscriptionReceived sample_env ''hello'' ''https://audio'' 420
         sample_state))
       = [sample_message,
          inserted_row (user_message_payload ''c1'' ''hello'' 420) (''m1'', 10),
          inserted_row (ai_message_payload sample_state ''c1'' ''https://audio'' 420)
            (''m2'', 11)]
   \<and> modelStats (fst (handleTranscriptionReceived sample_env ''hello'' ''https://audio'' 420
         sample_state)) = []
   \<and> filter is_error_report
        (snd (handleTranscriptionReceived sample_env ''hello'' ''https://audio'' 420
                sample_state)) = []"
proof -
  have h4: "performance_result sample_env = Some ''new row violates check constraint''"
    by (simp add: sample_env_def)
  have sr: "stats_result sample_env = RowsData (Some [])"
    by (simp add: sample_env_def)
  have ms: "modelStats (fst (fetchModelStats (RowsData (Some [])) s)) = []" for s
    by (simp add: fetchModelStats_def aggregate_def)
  show ?thesis
    using sample_in_use sample_user_result sample_ai_result h4
      performance_insert_result_discarded
        [OF sample_in_use sample_user_result sample_ai_result h4,
         where t = "''hello''" and url = "''https://audio''" and l = 420, THEN conjunct2]
    by (simp add: sample_prior sr ms fetchModelStats_messages)
qed

subsection \<open>The mock scores\<close>

lemma round_half_even_bounds:
  "\<lfloor>q\<rfloor> \<le> round_half_even q \<and> round_half_even q \<le> \<lfloor>q\<rfloor> + 1"
  by (simp add: round_half_even_def Let_def)

lemma round_half_even_near: "\<bar>of_int (round_half_even q) - q\<bar> \<le> 1 / 2"
  unfolding round_half_even_def Let_def by (auto simp: abs_le_iff)

lemma round_half_even_ge:
  assumes "of_int n \<le> q"
  shows "n \<le> round_half_even q"
proof -
  have "n \<le> \<lfloor>q\<rfloor>" using assms by (simp add: le_floor_iff)
  then show ?thesis using round_half_even_bounds [of q] by linarith
qed

lemma round_half_even_le:
  assumes "q \<le> of_int n"
  shows "round_half_even q \<le> n"
proof (cases "q = of_int n")
  case True
  then show ?thesis by (simp add: round_half_even_def)
next
  case False
  with assms have "q < of_int n" by simp
  then have "\<lfloor>q\<rfloor> < n" by (simp add: floor_less_iff)
  then show ?thesis using round_half_even_bounds [of q] by linarith
qed

text \<open>Rounding to a grid of spacing \<open>u\<close> stays between any two grid points around \<open>x\<close>.\<close>

lemma round_on_grid:
  assumes "0 < u" "of_int a * u \<le> x" "x \<le> of_int b * u"
  shows "of_int a * u \<le> u * of_int (round_half_even (x / u))"
    and "u * of_int (round_half_even (x / u)) \<le> of_int b * u"
proof -
  have "of_int a \<le> x / u" using assms(1,2) by (simp add: pos_le_divide_eq)
  then have "a \<le> round_half_even (x / u)" by (rule round_half_even_ge)
  then have "(of_int a :: real) \<le> of_int (round_half_even (x / u))" by simp
  then show "of_int a * u \<le> u * of_int (round_half_even (x / u))"
    using assms(1) by (simp add: mult.commute)
  have "x / u \<le> of_int b" using assms(1,3) by (simp add: pos_divide_le_eq)
  then have "round_half_even (x / u) \<le> b" by (rule round_half_even_le)
  then have "(of_int (round_half_even (x / u)) :: real) \<le> of_int b" by simp
  then show "u * of_int (round_half_even (x / u)) \<le> of_int b * u"
    using assms(1) by (simp add: mult.commute)
qed

lemma binary64_nearest_range:
  assumes "3 \<le> x" "x < 5"
  shows "3 \<le> binary64_nearest x \<and> binary64_nearest x \<le> 5"
proof (cases "x < 4")
  case True
  have "of_int (3 * 2 ^ 51) * (1 / 2 ^ 51) \<le> x" "x \<le> of_int (4 * 2 ^ 51) * (1 / 2 ^ 51)"
    using assms(1) True by simp_all
  from round_on_grid [OF _ this] True show ?thesis
    by (simp add: binary64_nearest_def binary64_spacing_def)
next
  case False
  have "of_int (4 * 2 ^ 50) * (1 / 2 ^ 50) \<le> x" "x \<le> of_int (5 * 2 ^ 50) * (1 / 2 ^ 50)"
    using assms(2) False by simp_all
  from round_on_grid [OF _ this] False show ?thesis
    by (simp add: binary64_nearest_def binary64_spacing_def)
qed

lemma binary64_nearest_near: "\<bar>binary64_nearest x - x\<bar> \<le> binary64_spacing x / 2"
proof -
  let ?u = "binary64_spacing x"
  have u: "0 < ?u" by (simp add: binary64_spacing_def)
  have "binary64_nearest x - x = ?u * (of_int (round_half_even (x / ?u)) - x / ?u)"
    using u by (simp add: binary64_nearest_def right_diff_distrib)
  then have "\<bar>binary64_nearest x - x\<bar> = ?u * \<bar>of_int (round_half_even (x / ?u)) - x / ?u\<bar>"
    using u by (simp add: abs_mult)
  also have "\<dots> \<le> ?u * (1 / 2)"
    using u round_half_even_near [of "x / ?u"] by (simp only: mult_le_cancel_left_pos)
  finally show ?thesis by simp
qed

lemma mock_score_range:
  assumes "0 \<le> r" "r < 1"
  shows "3 \<le> mock_score r \<and> mock_score r \<le> 5 \<and> \<bar>mock_score r - (2 * r + 3)\<bar> \<le> 1 / 2 ^ 51"
proof -
  have "binary64_spacing (r * 2 + 3) / 2 \<le> 1 / 2 ^ 51"
    by (simp add: binary64_spacing_def)
  then have "\<bar>binary64_nearest (r * 2 + 3) - (r * 2 + 3)\<bar> \<le> 1 / 2 ^ 51"
    using binary64_nearest_near [of "r * 2 + 3"] by linarith
  then show ?thesis
    using binary64_nearest_range [of "r * 2 + 3"] assms
    by (simp add: mock_score_def mult.commute)
qed

lemma sample_draws:
  "random_quality sample_env = 1 / 2" "random_expressivity sample_env = 1 / 4"
  by (simp_all add: sample_env_def)

lemma mock_score_half: "mock_score (1 / 2) = 4"
  by (simp add: mock_score_def binary64_nearest_def binary64_spacing_def round_half_even_def
      Let_def)

lemma mock_score_quarter: "mock_score (1 / 4) = 7 / 2"
  by (simp add: mock_score_def binary64_nearest_def binary64_spacing_def round_half_even_def
      Let_def)

text \<open>
  C10 as stated does not hold in binary64. \<open>1 - 2^-52\<close> is a binary64 number in
  \<open>[0,1)\<close>, among those the generator returns. For it \<open>2 * r + 3\<close> is
  \<open>5 - 2^-51\<close>, half way between the neighbouring binary64 numbers \<open>5 - 2^-50\<close> and
  \<open>5\<close>, and the sum rounds to the even one: the score written is exactly \<open>5\<close>, which
  is neither \<open>2 * r + 3\<close> nor below \<open>5\<close>.
\<close>

theorem mock_score_counterexample:
  "(0 :: real) \<le> 1 - 1 / 2 ^ 52 \<and> (1 - 1 / 2 ^ 52 :: real) < 1
   \<and> pp_quality_score
        (performance_data (sample_env\<lparr>random_quality := 1 - 1 / 2 ^ 52\<rparr>) sample_state 420) = 5
   \<and> pp_quality_score
        (performance_data (sample_env\<lparr>random_quality := 1 - 1 / 2 ^ 52\<rparr>) sample_state 420)
       \<noteq> 2 * (1 - 1 / 2 ^ 52) + 3
   \<and> \<not> pp_quality_score
        (performance_data (sample_env\<lparr>random_quality := 1 - 1 / 2 ^ 52\<rparr>) sample_state 420) < 5"
  by (simp add: performance_data_def mock_score_def binary64_nearest_def binary64_spacing_def
      round_half_even_def Let_def)

text \<open>
  C10, amended. For every two values in \<open>[0,1)\<close> drawn from the random generator, the
  \<open>quality_score\<close> and the \<open>expressivity_score\<close> of the performance record are the
  binary64 results of \<open>r * 2 + 3\<close>: the binary64 number nearest to \<open>2 * r + 3\<close>, at most
  \<open>2^-51\<close> away from it, and they lie in \<open>[3,5]\<close>, the bound \<open>5\<close> included;
  consequently every performance record the handler sends to be persisted satisfies the
  CHECK constraints \<open>0 <= score <= 5\<close> of the table.
\<close>

theorem mock_scores_in_range:
  assumes "0 \<le> random_quality env" "random_quality env < 1"
    and "0 \<le> random_expressivity env" "random_expressivity env < 1"
  shows "pp_quality_score (performance_data env s l)
           = binary64_nearest (2 * random_quality env + 3)
       \<and> pp_expressivity_score (performance_data env s l)
           = binary64_nearest (2 * random_expressivity env + 3)
       \<and> \<bar>pp_quality_score (performance_data env s l) - (2 * random_quality env + 3)\<bar>
           \<le> 1 / 2 ^ 51
       \<and> \<bar>pp_expressivity_score (performance_data env s l)
            - (2 * random_expressivity env + 3)\<bar> \<le> 1 / 2 ^ 51
       \<and> 3 \<le> pp_quality_score (performance_data env s l)
       \<and> pp_quality_score (performance_data env s l) \<le> 5
       \<and> 3 \<le> pp_expressivity_score (performance_data env s l)
       \<and> pp_expressivity_score (performance_data env s l) \<le> 5
       \<and> (\<forall>p. InsertPerformance p \<in> set (snd (handleTranscriptionReceived env t url l s)) \<longrightarrow>
             score_check (pp_quality_score p) \<and> score_check (pp_expressivity_score p))"
proof -
  have d: "pp_quality_score (performance_data env s l)
           = binary64_nearest (2 * random_quality env + 3)
       \<and> pp_expressivity_score (performance_data env s l)
           = binary64_nearest (2 * random_expressivity env + 3)"
    by (simp add: performance_data_def mock_score_def mult.commute)
  have q: "pp_quality_score (performance_data env s l) = mock_score (random_quality env)"
    and x: "pp_expressivity_score (performance_data env s l)
        = mock_score (random_expressivity env)"
    by (simp_all add: performance_data_def)
  have r: "\<bar>pp_quality_score (performance_data env s l) - (2 * random_quality env + 3)\<bar>
           \<le> 1 / 2 ^ 51
       \<and> \<bar>pp_expressivity_score (performance_data env s l)
            - (2 * random_expressivity env + 3)\<bar> \<le> 1 / 2 ^ 51
       \<and> 3 \<le> pp_quality_score (performance_data env s l)
       \<and> pp_quality_score (performance_data env s l) \<le> 5
       \<and> 3 \<le> pp_expressivity_score (performance_data env s l)
       \<and> pp_expressivity_score (performance_data env s l) \<le> 5"
    using mock_score_range [OF assms(1,2)] mock_score_range [OF assms(3,4)]
    by (simp only: q x)
  have c: "score_check (pp_quality_score (performance_data env s l))
       \<and> score_check (pp_expressivity_score (performance_data env s l))"
    using r by (simp add: score_check_def)
  show ?thesis
    using d r c performance_inserts by blast
qed

theorem mock_scores_in_range_witness:
  "0 \<le> random_quality sample_env \<and> random_quality sample_env < 1
   \<and> 0 \<le> random_expressivity sample_env \<and> random_expressivity sample_env < 1
   \<and> pp_quality_score (performance_data sample_env sample_state 420) = 4
   \<and> pp_expressivity_score (performance_data sample_env sample_state 420) = 7 / 2
   \<and> InsertPerformance (performance_data sample_env sample_state 420)
       \<in> set (snd (handleTranscriptionReceived sample_env ''hello'' ''https://audio'' 420
                     sample_state))
   \<and> score_check (pp_quality_score (performance_data sample_env sample_state 420))
   \<and> score_check (pp_expressivity_score (performance_data sample_env sample_state 420))"
proof -
  have h: "0 \<le> random_quality sample_env" "random_quality sample_env < 1"
    "0 \<le> random_expressivity sample_env" "random_expressivity sample_env < 1"
    by (simp_all add: sample_draws)
  have v: "pp_quality_score (performance_data sample_env sample_state 420) = 4"
    "pp_expressivity_score (performance_data sample_env sample_state 420) = 7 / 2"
    by (simp_all add: performance_data_def sample_draws mock_score_half mock_score_quarter)
  have sent: "InsertPerformance (performance_data sample_env sample_state 420)
       \<in> set (snd (handleTranscriptionReceived sample_env ''hello'' ''https://audio'' 420
                     sample_state))"
    by (simp add: handle_in_use [OF sample_in_use]
        try_success [OF sample_user_result sample_ai_result] performance_data_in_use)
  have checked: "score_check (pp_quality_score (performance_data sample_env sample_state 420))
      \<and> score_check (pp_expressivity_score (performance_data sample_env sample_state 420))"
    using sent
      mock_scores_in_range [OF h, where s = sample_state and l = 420 and t = "''hello''"
        and url = "''https://audio''"]
    by blast
  show ?thesis
    using h v sent checked by blast
qed

section \<open>Properties of the conversation history\<close>

text \<open>
  C8. After a successful delete (\<open>error = null\<close>) of the currently active conversation,
  the page has no active conversation id and an empty in-memory message list; after a
  successful delete of a conversation that is not the active one, the page's state, and
  with it the active conversation id and its message list, is unchanged. An id is
  active when it is the page's \<open>currentConversationId\<close> and not the empty string, which
  \<open>currentConversationId || undefined\<close> hands on as no selection.
\<close>

theorem delete_conversation_frame:
  "(currentConversationId s = Some cid \<and> cid \<noteq> [] \<longrightarrow>
      currentConversationId (fst (fst (deleteConversation None cid (s, h)))) = None
      \<and> messages (fst (fst (deleteConversation None cid (s, h)))) = [])
   \<and> (currentConversationId s \<noteq> Some cid \<longrightarrow>
      fst (fst (deleteConversation None cid (s, h))) = s)"
  by (auto simp add: deleteConversation_def selectedConversationId_def handleNewConversation_def
      truthy_def split: option.splits if_splits)

theorem delete_conversation_frame_witness:
  "currentConversationId sample_state = Some ''c1'' \<and> ''c1'' \<noteq> []
   \<and> currentConversationId
        (fst (fst (deleteConversation None ''c1''
           (sample_state, \<lparr>conversations = [], loading = False\<rparr>)))) = None
   \<and> messages
        (fst (fst (deleteConversation None ''c1''
           (sample_state, \<lparr>conversations = [], loading = False\<rparr>)))) = []
   \<and> currentConversationId sample_state \<noteq> Some ''c7''
   \<and> fst (fst (deleteConversation None ''c7''
           (sample_state, \<lparr>conversations = [], loading = False\<rparr>))) = sample_state"
proof -
  have a: "currentConversationId sample_state = Some ''c1'' \<and> ''c1'' \<noteq> []"
    by (simp add: sample_state_def)
  have b: "currentConversationId sample_state \<noteq> Some ''c7''"
    by (simp add: sample_state_def)
  show ?thesis
    using a b
      delete_conversation_frame [where s = sample_state and cid = "''c1''"
        and h = "\<lparr>conversations = [], loading = False\<rparr>"]
      delete_conversation_frame [where s = sample_state and cid = "''c7''"
        and h = "\<lparr>conversations = [], loading = False\<rparr>"]
    by blast
qed

section \<open>Properties of the inference endpoint\<close>









text \<open>
  C6. For every request (other than the CORS preflight) whose form data lacks any of the
  three fields \<open>audio\<close>, \<open>model\<close>, \<open>language\<close>, the endpoint answers with the error
  response of the parameter check, status 500 and \<open>success: false\<close>, before any
  model-specific code runs: the console shows the start line and the error only, and no
  backend is invoked. A field that is the empty string counts as lacking, as
  \<open>!audioBlob\<close>, \<open>!model\<close> and \<open>!language\<close> have it.
\<close>

theorem missing_parameter_rejected:
  assumes "req_method req \<noteq> ''OPTIONS''"
    and "req_formData req = Inr fd"
    and "fd_audio fd = None \<or> truthy_value (fd_audio fd) = None
         \<or> truthy (fd_model fd) = None \<or> truthy (fd_language fd) = None"
  shows "serve engine clock req =
           (\<lparr> status = 500,
              headers = corsHeaders @ [(''Content-Type'', ''application/json'')],
              body = ErrorBody
                \<lparr> ej_error = ''Missing required parameters: audio, model, or language'',
                  ej_success = False \<rparr> \<rparr>,
            [''Speech-to-Speech processing started'',
             ''Error in speech-to-speech processing: Missing required parameters: audio, model, or language''])
       \<and> \<not> backend_invoked (snd (serve engine clock req))"
proof -
  have t: "serve_try engine clock req
      = (Inl missing_parameters, [''Speech-to-Speech processing started''])"
    using assms(2,3)
    by (auto simp add: serve_try_def truthy_value_def Let_def split: option.splits)
  show ?thesis
    using assms(1)
    by (simp add: serve_def t missing_parameters_def backend_invoked_def backend_lines_def)
qed

theorem missing_parameter_rejected_witness:
  "req_method (sample_request (Some (FileField [82, 73, 70, 70])) (Some ''moshi'') None)
     \<noteq> ''OPTIONS''
   \<and> req_formData (sample_request (Some (FileField [82, 73, 70, 70])) (Some ''moshi'') None)
       = Inr \<lparr> fd_audio = Some (FileField [82, 73, 70, 70]), fd_model = Some ''moshi'',
               fd_language = None \<rparr>
   \<and> fd_language \<lparr> fd_audio = Some (FileField [82, 73, 70, 70]), fd_model = Some ''moshi'',
                    fd_language = None \<rparr> = None
   \<and> status (fst (serve sample_engine sample_clock
        (sample_request (Some (FileField [82, 73, 70, 70])) (Some ''moshi'') None))) = 500
   \<and> body (fst (serve sample_engine sample_clock
        (sample_request (Some (FileField [82, 73, 70, 70])) (Some ''moshi'') None)))
       = ErrorBody \<lparr> ej_error = ''Missing required parameters: audio, model, or language'',
                     ej_success = False \<rparr>
   \<and> \<not> backend_invoked (snd (serve sample_engine sample_clock
        (sample_request (Some (FileField [82, 73, 70, 70])) (Some ''moshi'') None)))"
proof -
  let ?fd = "\<lparr> fd_audio = Some (FileField [82, 73, 70, 70]), fd_model = Some ''moshi'',
               fd_language = None \<rparr>"
  have h1: "req_method (sample_request (Some (FileField [82, 73, 70, 70])) (Some ''moshi'') None)
      \<noteq> ''OPTIONS''"
    by (simp add: sample_request_def)
  have h2: "req_formData (sample_request (Some (FileField [82, 73, 70, 70])) (Some ''moshi'') None)
      = Inr ?fd"
    by (simp add: sample_request_def)
  have h3: "fd_audio ?fd = None \<or> truthy_value (fd_audio ?fd) = None
      \<or> truthy (fd_model ?fd) = None \<or> truthy (fd_language ?fd) = None"
    by (simp add: truthy_def)
  show ?thesis
    using h1 h2
      missing_parameter_rejected [OF h1 h2 h3, where engine = sample_engine
        and clock = sample_clock]
    by (simp add: backend_invoked_def backend_lines_def)
qed

lemma map_of_moshi_other:
  "language \<notin> set supported_languages \<Longrightarrow> map_of moshi_greetings language = None"
  by (simp add: moshi_greetings_def supported_languages_def)

lemma map_of_ultravox_other:
  "language \<notin> set supported_languages \<Longrightarrow> map_of ultravox_responses language = None"
  by (simp add: ultravox_responses_def supported_languages_def)

lemma map_of_spirit_lm_other:
  "language \<notin> set supported_languages \<Longrightarrow> map_of spirit_lm_responses language = None"
  by (simp add: spirit_lm_responses_def supported_languages_def)

lemma moshi_en:
  "get_property moshi_greetings ''en'' = JString
     ''Hello! I heard you speaking. This is Moshi responding with full-duplex conversation capability.''"
  by (simp add: get_property_def moshi_greetings_def)

lemma ultravox_en:
  "get_property ultravox_responses ''en'' = JString
     ''Ultravox here! As a speech-extended language model, I can understand and respond to your speech with enhanced linguistic capabilities.''"
  by (simp add: get_property_def ultravox_responses_def)

lemma spirit_lm_en:
  "get_property spirit_lm_responses ''en'' = JString
     ''Spirit LM speaking! I specialize in expressive speech-text fusion, bringing emotion and nuance to our conversation.''"
  by (simp add: get_property_def spirit_lm_responses_def)

lemma constructor_unsupported: "''constructor'' \<notin> set supported_languages"
  by (simp add: supported_languages_def)

lemma constructor_inherited: "''constructor'' \<in> set object_prototype_properties"
  by (simp add: object_prototype_properties_def)

text \<open>
  The fallback works for a language code that is neither a key of the table nor the name
  of a member of \<open>Object.prototype\<close>: each backend then answers with the English
  transcript, and with an audio URL that is not empty.
\<close>

lemma fallback_language:
  assumes "language \<notin> set supported_languages"
    "language \<notin> set object_prototype_properties"
  shows "p_transcript (fst (processMoshiModel timestamp audioBase64 language))
           = get_property moshi_greetings ''en''"
    and "p_transcript (fst (processUltravoxModel timestamp audioBase64 language))
           = get_property ultravox_responses ''en''"
    and "p_transcript (fst (processSpiritLMModel timestamp audioBase64 language))
           = get_property spirit_lm_responses ''en''"
    and "p_audioUrl (fst (processMoshiModel timestamp audioBase64 language)) \<noteq> []"
    and "p_audioUrl (fst (processUltravoxModel timestamp audioBase64 language)) \<noteq> []"
    and "p_audioUrl (fst (processSpiritLMModel timestamp audioBase64 language)) \<noteq> []"
  using assms
  by (simp_all add: processMoshiModel_def processUltravoxModel_def processSpiritLMModel_def
      get_property_def [of _ language] js_or_def map_of_moshi_other map_of_ultravox_other
      map_of_spirit_lm_other generateMockAudioUrl_def)

text \<open>
  C7 fails on the code for the language code \<open>constructor\<close>, which is not one of the five
  supported codes: \<open>table['constructor']\<close> finds the member \<open>constructor\<close> that every
  object literal inherits from \<open>Object.prototype\<close>, a truthy value, so \<open>||\<close> does not
  fall back and none of the three backends returns its English transcript.
\<close>

theorem inherited_key_defeats_fallback:
  "''constructor'' \<notin> set supported_languages
   \<and> p_transcript (fst (processMoshiModel timestamp audioBase64 ''constructor''))
       = JInherited ''constructor''
   \<and> p_transcript (fst (processUltravoxModel timestamp audioBase64 ''constructor''))
       = JInherited ''constructor''
   \<and> p_transcript (fst (processSpiritLMModel timestamp audioBase64 ''constructor''))
       = JInherited ''constructor''
   \<and> JInherited ''constructor'' \<noteq> get_property moshi_greetings ''en''
   \<and> JInherited ''constructor'' \<noteq> get_property ultravox_responses ''en''
   \<and> JInherited ''constructor'' \<noteq> get_property spirit_lm_responses ''en''"
  using constructor_unsupported constructor_inherited
  by (simp add: processMoshiModel_def processUltravoxModel_def processSpiritLMModel_def
      get_property_def js_or_def map_of_moshi_other map_of_ultravox_other map_of_spirit_lm_other
      moshi_en [unfolded get_property_def] ultravox_en [unfolded get_property_def]
      spirit_lm_en [unfolded get_property_def])

end
